theory Spec2Isabelle
  imports Main "HOL-Library.AList"
begin

section \<open>Data model\<close>

text \<open>
  The analyzer keeps its aggregates in JavaScript \<open>Map\<close>s. A \<open>Map\<close> iterates in insertion
  order and \<open>set\<close> on a key that is present replaces the value in place; this is an
  association list with \<open>map_of\<close> for \<open>get\<close>/\<open>has\<close> and \<open>AList.update\<close> for \<open>set\<close>.
  Counts are natural numbers, a \<open>Date\<close> is its \<open>getTime()\<close> value (milliseconds, an
  integer), and an absent optional field is \<open>None\<close>.
\<close>

record SenderData =
  s_count :: nat
  s_earliestDate :: "int option"
  s_latestDate :: "int option"

record DomainData =
  totalCount :: nat
  senders :: "(string \<times> SenderData) list"
  isPersonal :: bool
  earliestDate :: "int option"
  latestDate :: "int option"

type_synonym aggregate = "(string \<times> DomainData) list"

text \<open>
  \<open>StoredDomainData\<close> of the overflow store has the same fields, with the timestamps as
  numbers instead of \<open>Date\<close> objects. The model uses the same record for both; what differs
  is how the code tests the fields: a \<open>Date\<close> object is always truthy, the number \<open>0\<close> is not.
\<close>

type_synonym store = "(string \<times> DomainData) list"

record Sender =
  email :: string
  count :: nat
  lastEmailDate :: "int option"

record DomainGroup =
  domain :: string
  g_totalCount :: nat
  g_senders :: "Sender list"
  g_isPersonal :: bool
  g_earliestDate :: "int option"
  g_latestDate :: "int option"

definition PERSONAL_DOMAINS :: "string list" where
  "PERSONAL_DOMAINS =
     [''gmail.com'', ''googlemail.com'', ''outlook.com'', ''hotmail.com'', ''live.com'',
      ''yahoo.com'', ''yahoo.co.uk'', ''icloud.com'', ''me.com'', ''mac.com'', ''aol.com'',
      ''protonmail.com'', ''proton.me'', ''yandex.com'', ''mail.com'', ''zoho.com'',
      ''gmx.com'', ''gmx.de'']"

section \<open>In-memory merge (\<open>MboxProcessor.mergeResults\<close>)\<close>

text \<open>
  \<open>if (d) { if (!acc || d < acc) acc = d }\<close> on \<open>Date\<close> objects: the accumulator's bound is
  replaced when the incoming one is present and the accumulator has none or a later one.
\<close>

definition minDate :: "int option \<Rightarrow> int option \<Rightarrow> int option" where
  "minDate acc d =
     (case d of None \<Rightarrow> acc
      | Some t \<Rightarrow> (case acc of None \<Rightarrow> Some t | Some a \<Rightarrow> if t < a then Some t else Some a))"

definition maxDate :: "int option \<Rightarrow> int option \<Rightarrow> int option" where
  "maxDate acc d =
     (case d of None \<Rightarrow> acc
      | Some t \<Rightarrow> (case acc of None \<Rightarrow> Some t | Some a \<Rightarrow> if t > a then Some t else Some a))"

definition newSender :: SenderData where
  "newSender = \<lparr>s_count = 0, s_earliestDate = None, s_latestDate = None\<rparr>"

definition mergeSender ::
  "string \<times> SenderData \<Rightarrow> (string \<times> SenderData) list \<Rightarrow> (string \<times> SenderData) list" where
  "mergeSender entry accSenders =
     (case entry of (addr, senderData) \<Rightarrow>
        let accSender = (case map_of accSenders addr of None \<Rightarrow> newSender | Some s \<Rightarrow> s)
        in AList.update addr
             \<lparr>s_count = s_count accSender + s_count senderData,
              s_earliestDate = minDate (s_earliestDate accSender) (s_earliestDate senderData),
              s_latestDate = maxDate (s_latestDate accSender) (s_latestDate senderData)\<rparr>
             accSenders)"

definition mergeDomain :: "string \<times> DomainData \<Rightarrow> aggregate \<Rightarrow> aggregate" where
  "mergeDomain entry accumulated =
     (case entry of (key, batchData) \<Rightarrow>
        let accData =
              (case map_of accumulated key of
                 None \<Rightarrow> \<lparr>totalCount = 0, senders = [], isPersonal = isPersonal batchData,
                           earliestDate = None, latestDate = None\<rparr>
               | Some d \<Rightarrow> d)
        in AList.update key
             \<lparr>totalCount = totalCount accData + totalCount batchData,
              senders = fold mergeSender (senders batchData) (senders accData),
              isPersonal = isPersonal accData,
              earliestDate = minDate (earliestDate accData) (earliestDate batchData),
              latestDate = maxDate (latestDate accData) (latestDate batchData)\<rparr>
             accumulated)"

definition mergeResults :: "aggregate \<Rightarrow> aggregate \<Rightarrow> aggregate" where
  "mergeResults accumulated batch = fold mergeDomain batch accumulated"

section \<open>Overflow store (\<open>IndexedDBStorage\<close>)\<close>

text \<open>
  In the store the timestamps are numbers and the code tests them by truthiness:
  \<open>undefined\<close> and \<open>0\<close> are both falsy.
\<close>

definition truthy :: "int option \<Rightarrow> bool" where
  "truthy d = (case d of None \<Rightarrow> False | Some t \<Rightarrow> t \<noteq> 0)"

text \<open>
  \<open>if (s && (!m || s < m)) m = s\<close> and \<open>if (s && (!m || s > m)) m = s\<close> on the numbers of
  a stored sender.
\<close>

definition storedMin :: "int option \<Rightarrow> int option \<Rightarrow> int option" where
  "storedMin m s =
     (case s of None \<Rightarrow> m
      | Some t \<Rightarrow>
          if t \<noteq> 0 \<and> (case m of None \<Rightarrow> True | Some a \<Rightarrow> a = 0 \<or> t < a) then Some t else m)"

definition storedMax :: "int option \<Rightarrow> int option \<Rightarrow> int option" where
  "storedMax m s =
     (case s of None \<Rightarrow> m
      | Some t \<Rightarrow>
          if t \<noteq> 0 \<and> (case m of None \<Rightarrow> True | Some a \<Rightarrow> a = 0 \<or> t > a) then Some t else m)"

text \<open>
  \<open>e && i ? Math.min(e, i) : e || i\<close> and the same with \<open>Math.max\<close>, for the bounds of a
  stored domain.
\<close>

definition storedDomainMin :: "int option \<Rightarrow> int option \<Rightarrow> int option" where
  "storedDomainMin e i =
     (if truthy e \<and> truthy i then (case (e, i) of (Some a, Some b) \<Rightarrow> Some (min a b) | _ \<Rightarrow> None)
      else if truthy e then e else i)"

definition storedDomainMax :: "int option \<Rightarrow> int option \<Rightarrow> int option" where
  "storedDomainMax e i =
     (if truthy e \<and> truthy i then (case (e, i) of (Some a, Some b) \<Rightarrow> Some (max a b) | _ \<Rightarrow> None)
      else if truthy e then e else i)"

definition storeSender ::
  "string \<times> SenderData \<Rightarrow> (string \<times> SenderData) list \<Rightarrow> (string \<times> SenderData) list" where
  "storeSender entry mergedSenders =
     (case entry of (addr, senderData) \<Rightarrow>
        (case map_of mergedSenders addr of
           Some m \<Rightarrow>
             AList.update addr
               \<lparr>s_count = s_count m + s_count senderData,
                s_earliestDate = storedMin (s_earliestDate m) (s_earliestDate senderData),
                s_latestDate = storedMax (s_latestDate m) (s_latestDate senderData)\<rparr>
               mergedSenders
         | None \<Rightarrow> AList.update addr senderData mergedSenders))"

text \<open>One \<open>get\<close>/\<open>put\<close> of \<open>flush\<close>: the record of a domain is merged into what the store holds.\<close>

definition storeDomain :: "string \<times> DomainData \<Rightarrow> store \<Rightarrow> store" where
  "storeDomain entry st =
     (case entry of (key, item) \<Rightarrow>
        (case map_of st key of
           Some existing \<Rightarrow>
             AList.update key
               \<lparr>totalCount = totalCount existing + totalCount item,
                senders = fold storeSender (senders item) (senders existing),
                isPersonal = isPersonal item,
                earliestDate = storedDomainMin (earliestDate existing) (earliestDate item),
                latestDate = storedDomainMax (latestDate existing) (latestDate item)\<rparr>
               st
         | None \<Rightarrow> AList.update key item st))"

text \<open>
  \<open>flush\<close> walks the entries of the aggregate in order, in transactions of 100 entries. The
  keys of one flush are pairwise distinct, so the requests of one transaction touch different
  records and the effect is that of handling the entries one after the other. A flush whose
  write fails is the caller's business (see \<open>process\<close>).
\<close>

definition flush :: "store \<Rightarrow> aggregate \<Rightarrow> store" where
  "flush st domains = fold storeDomain domains st"

text \<open>\<open>x ? new Date(x) : undefined\<close>: reading back drops a falsy timestamp.\<close>

definition readDate :: "int option \<Rightarrow> int option" where
  "readDate d = (if truthy d then d else None)"

definition loadSender :: "string \<times> SenderData \<Rightarrow> string \<times> SenderData" where
  "loadSender entry =
     (case entry of (addr, data) \<Rightarrow>
        (addr, \<lparr>s_count = s_count data, s_earliestDate = readDate (s_earliestDate data),
                 s_latestDate = readDate (s_latestDate data)\<rparr>))"

definition loadDomain :: "string \<times> DomainData \<Rightarrow> string \<times> DomainData" where
  "loadDomain entry =
     (case entry of (key, item) \<Rightarrow>
        (key, \<lparr>totalCount = totalCount item, senders = map loadSender (senders item),
                  isPersonal = isPersonal item, earliestDate = readDate (earliestDate item),
                  latestDate = readDate (latestDate item)\<rparr>))"

definition loadAll :: "store \<Rightarrow> aggregate" where
  "loadAll st = map loadDomain st"

definition clear :: "store \<Rightarrow> store" where
  "clear st = []"

section \<open>Strings\<close>

text \<open>
  A JavaScript string is a sequence of UTF-16 code units; the model covers the code units
  below 256 (one \<open>char\<close> each). \<open>\s\<close>, \<open>trim\<close> and \<open>trimEnd\<close> use the same set of
  white space, which below 256 is tab, line feed, vertical tab, form feed, carriage return,
  space and no-break space; \<open>.\<close> in a regular expression is any code unit but a line
  terminator (line feed and carriage return).
\<close>

definition isWhitespace :: "char \<Rightarrow> bool" where
  "isWhitespace c =
     (c = CHR 0x09 \<or> c = CHR 0x0A \<or> c = CHR 0x0B \<or> c = CHR 0x0C \<or> c = CHR 0x0D \<or>
      c = CHR 0x20 \<or> c = CHR 0xA0)"

definition isLineTerminator :: "char \<Rightarrow> bool" where
  "isLineTerminator c = (c = CHR 0x0A \<or> c = CHR 0x0D)"

definition trimEnd :: "string \<Rightarrow> string" where
  "trimEnd s = rev (dropWhile isWhitespace (rev s))"

definition trim :: "string \<Rightarrow> string" where
  "trim s = dropWhile isWhitespace (trimEnd s)"

definition startsWith :: "string \<Rightarrow> string \<Rightarrow> bool" where
  "startsWith s p = (take (length p) s = p)"

fun includesStr :: "string \<Rightarrow> string \<Rightarrow> bool" where
  "includesStr [] p = (p = [])"
| "includesStr (c # cs) p = (startsWith (c # cs) p \<or> includesStr cs p)"

definition toLowerChar :: "char \<Rightarrow> char" where
  "toLowerChar c =
     (let n = (of_char c :: nat)
      in if (65 \<le> n \<and> n \<le> 90) \<or> (192 \<le> n \<and> n \<le> 222 \<and> n \<noteq> 215)
         then char_of (n + 32) else c)"

definition toLowerCase :: "string \<Rightarrow> string" where
  "toLowerCase s = map toLowerChar s"

text \<open>\<open>s.split(".")\<close> and \<open>parts.join(".")\<close>.\<close>

fun splitDot :: "string \<Rightarrow> string list" where
  "splitDot [] = [[]]"
| "splitDot (c # cs) =
     (if c = CHR ''.'' then [] # splitDot cs
      else (case splitDot cs of [] \<Rightarrow> [[c]] | p # ps \<Rightarrow> (c # p) # ps))"

fun joinDot :: "string list \<Rightarrow> string" where
  "joinDot [] = []"
| "joinDot [p] = p"
| "joinDot (p # q # ps) = p @ CHR ''.'' # joinDot (q # ps)"

text \<open>
  \<open>email.match(/@([^\s>]+)/)\<close>: the leftmost \<open>@\<close> that is followed by a character other than
  white space and \<open>>\<close>; the group is the longest run of such characters after it (an \<open>@\<close>
  is one of them).
\<close>

definition domainChar :: "char \<Rightarrow> bool" where
  "domainChar c = (\<not> isWhitespace c \<and> c \<noteq> CHR ''>'')"

fun domainMatch :: "string \<Rightarrow> string option" where
  "domainMatch [] = None"
| "domainMatch (c # cs) =
     (if c = CHR ''@'' \<and> takeWhile domainChar cs \<noteq> [] then Some (takeWhile domainChar cs)
      else domainMatch cs)"

text \<open>
  \<open>fromValue.match(/<([^>]+)>/)\<close>: the leftmost \<open><\<close> followed by a non-empty run of
  characters other than \<open>>\<close> and then a \<open>>\<close>.
\<close>

fun angleMatch :: "string \<Rightarrow> string option" where
  "angleMatch [] = None"
| "angleMatch (c # cs) =
     (if c = CHR ''<'' \<and> takeWhile (\<lambda>x. x \<noteq> CHR ''>'') cs \<noteq> [] \<and>
         dropWhile (\<lambda>x. x \<noteq> CHR ''>'') cs \<noteq> []
      then Some (takeWhile (\<lambda>x. x \<noteq> CHR ''>'') cs)
      else angleMatch cs)"

text \<open>\<open>s.replace(/^["']|["']$/g, "")\<close>: one quote character off the front, one off the end.\<close>

definition isQuote :: "char \<Rightarrow> bool" where
  "isQuote c = (c = CHR 0x22 \<or> c = CHR 0x27)"

definition stripQuotes :: "string \<Rightarrow> string" where
  "stripQuotes s =
     (let s1 = (case s of [] \<Rightarrow> [] | c # cs \<Rightarrow> if isQuote c then cs else s)
      in if s1 \<noteq> [] \<and> isQuote (last s1) then butlast s1 else s1)"

text \<open>
  The group of \<open>/From:\s*(.+)/i\<close> and \<open>/Date:\s*(.+)/i\<close> on a line that starts with the
  header name, given the rest of the line. White space is skipped and the group runs to the
  next line terminator. When the rest is white space only, the expression backtracks and the
  group is the last character of it that is not a line terminator; when there is none,
  nothing matches.
\<close>

definition headerValue :: "string \<Rightarrow> string option" where
  "headerValue rest =
     (let r = dropWhile isWhitespace rest
      in if r \<noteq> [] then Some (takeWhile (\<lambda>c. \<not> isLineTerminator c) r)
         else (case dropWhile isLineTerminator (rev rest) of [] \<Rightarrow> None | c # _ \<Rightarrow> Some [c]))"

section \<open>Batch aggregator (\<open>processLine\<close>, \<open>addRecord\<close>, \<open>processBatch\<close>)\<close>

definition addRecord :: "string \<Rightarrow> int option \<Rightarrow> aggregate \<Rightarrow> aggregate" where
  "addRecord addr date domains =
     (case domainMatch addr of
        None \<Rightarrow> domains
      | Some m \<Rightarrow>
          let fullDomain = toLowerCase m;
              domainGroup =
                (case map_of domains fullDomain of
                   None \<Rightarrow> \<lparr>totalCount = 0, senders = [],
                             isPersonal = (fullDomain \<in> set PERSONAL_DOMAINS),
                             earliestDate = None, latestDate = None\<rparr>
                 | Some g \<Rightarrow> g);
              senderEntry =
                (case map_of (senders domainGroup) addr of None \<Rightarrow> newSender | Some e \<Rightarrow> e)
          in AList.update fullDomain
               \<lparr>totalCount = totalCount domainGroup + 1,
                senders =
                  AList.update addr
                    \<lparr>s_count = s_count senderEntry + 1,
                     s_earliestDate = minDate (s_earliestDate senderEntry) date,
                     s_latestDate = maxDate (s_latestDate senderEntry) date\<rparr>
                    (senders domainGroup),
                isPersonal = isPersonal domainGroup,
                earliestDate = minDate (earliestDate domainGroup) date,
                latestDate = maxDate (latestDate domainGroup) date\<rparr>
               domains)"

text \<open>
  The local variables of \<open>processBatch\<close> that its callbacks read and write, with
  \<open>messageCount\<close> of the processor. \<open>records\<close> is not in the program: it logs the arguments
  of every call of \<open>addRecord\<close>, in order, so that the messages of a batch can be counted.
\<close>

record scanner =
  domains :: aggregate
  currentFrom :: "string option"
  currentDate :: "int option"
  inHeaders :: bool
  messageCount :: nat
  records :: "(string \<times> int option) list"

definition initialScanner :: scanner where
  "initialScanner =
     \<lparr>domains = [], currentFrom = None, currentDate = None, inHeaders = False,
      messageCount = 0, records = []\<rparr>"

text \<open>\<open>if (currentFrom) { addRecord(...); messageCount++ }\<close>: \<open>null\<close> and \<open>""\<close> are falsy.\<close>

definition addCurrent :: "scanner \<Rightarrow> scanner" where
  "addCurrent s =
     (case currentFrom s of
        None \<Rightarrow> s
      | Some f \<Rightarrow>
          if f = [] then s
          else s\<lparr>domains := addRecord f (currentDate s) (domains s),
                 messageCount := messageCount s + 1,
                 records := records s @ [(f, currentDate s)]\<rparr>)"

definition onNewMessage :: "scanner \<Rightarrow> scanner" where
  "onNewMessage s = (addCurrent s)\<lparr>currentFrom := None, currentDate := None, inHeaders := True\<rparr>"

text \<open>
  \<open>processLine\<close> with the callbacks of \<open>processBatch\<close> put in. \<open>parseDate\<close> stands for
  \<open>new Date(string)\<close> followed by the \<open>isNaN\<close> test: \<open>None\<close> for a string that is no date.
  \<open>complete\<close> tells the call for a complete line from the call for what is left of the
  buffer, in which \<open>onNewMessage\<close> and \<open>onHeadersEnd\<close> do nothing.
\<close>

definition processLine :: "(string \<Rightarrow> int option) \<Rightarrow> bool \<Rightarrow> string \<Rightarrow> scanner \<Rightarrow> scanner" where
  "processLine parseDate complete line s =
     (if startsWith line ''From '' then (if complete then onNewMessage s else s)
      else if inHeaders s then
        (if startsWith line ''From:'' then
           (case headerValue (drop 5 line) of
              None \<Rightarrow> s
            | Some v \<Rightarrow>
                let fromValue = trim v
                in (case angleMatch fromValue of
                      Some a \<Rightarrow> s\<lparr>currentFrom := Some (trim a)\<rparr>
                    | None \<Rightarrow> s\<lparr>currentFrom := Some (trim (stripQuotes fromValue))\<rparr>))
         else if startsWith line ''Date:'' then
           (case headerValue (drop 5 line) of
              None \<Rightarrow> s
            | Some v \<Rightarrow>
                (case parseDate (trim v) of
                   None \<Rightarrow> s
                 | Some t \<Rightarrow> if currentDate s = None then s\<lparr>currentDate := Some t\<rparr> else s))
         else if line = [] then (if complete then s\<lparr>inHeaders := False\<rparr> else s)
         else s)
      else s)"

text \<open>
  The text of a batch cut at its line feeds: the complete lines, and what is left in the
  buffer after the last line feed.
\<close>

fun splitLines :: "string \<Rightarrow> string list \<times> string" where
  "splitLines [] = ([], [])"
| "splitLines (c # cs) =
     (case splitLines cs of
        (ls, r) \<Rightarrow>
          if c = CHR 0x0A then ([] # ls, r)
          else (case ls of [] \<Rightarrow> ([], c # r) | l # ls' \<Rightarrow> ((c # l) # ls', r)))"

text \<open>
  \<open>processBatch\<close> on the decoded text of its byte range. The chunks of the reader only
  decide when a line is seen, not what the lines are, so the model takes the text whole.
\<close>

definition scanBatch :: "(string \<Rightarrow> int option) \<Rightarrow> string \<Rightarrow> scanner" where
  "scanBatch parseDate input =
     (case splitLines input of
        (ls, buffer) \<Rightarrow>
          let s1 = fold (\<lambda>l. processLine parseDate True (trimEnd l)) ls initialScanner;
              s2 = (if buffer \<noteq> [] then processLine parseDate False buffer s1 else s1)
          in addCurrent s2)"

definition processBatch :: "(string \<Rightarrow> int option) \<Rightarrow> string \<Rightarrow> aggregate" where
  "processBatch parseDate input = domains (scanBatch parseDate input)"

section \<open>Finalizer (\<open>convertToDomainGroups\<close>)\<close>

text \<open>
  \<open>Array.prototype.sort\<close> is stable; with the comparator \<open>b.count - a.count\<close> it sorts by
  descending count and keeps the order of equal counts, as \<open>sort_key\<close> does with the
  negated count as key.
\<close>

definition convertSender :: "string \<times> SenderData \<Rightarrow> Sender" where
  "convertSender entry =
     (case entry of (addr, senderData) \<Rightarrow>
        \<lparr>email = addr, count = s_count senderData, lastEmailDate = s_latestDate senderData\<rparr>)"

definition convertDomain :: "string \<times> DomainData \<Rightarrow> DomainGroup" where
  "convertDomain entry =
     (case entry of (key, data) \<Rightarrow>
        \<lparr>domain = key, g_totalCount = totalCount data,
         g_senders = sort_key (\<lambda>s. - int (count s)) (map convertSender (senders data)),
         g_isPersonal = isPersonal data, g_earliestDate = earliestDate data,
         g_latestDate = latestDate data\<rparr>)"

definition convertToDomainGroups :: "aggregate \<Rightarrow> DomainGroup list" where
  "convertToDomainGroups ds = sort_key (\<lambda>g. - int (g_totalCount g)) (map convertDomain ds)"

section \<open>Accumulator and spill controller (\<open>MboxProcessor.process\<close>)\<close>

text \<open>
  What the run meets that the program does not decide: whether the abort flag is up when a
  batch is due (or while it is read; both throw \<open>Cancelled\<close> before the batch is merged),
  the text of the batch, and whether the writes of a flush succeed. A flush that fails has
  written some of its records; the store it leaves behind is given with the failure.
\<close>

datatype flushOutcome = FlushOk | FlushFails store

datatype batch = Abort | Batch string flushOutcome

datatype error = InitFailure | WriteFailure

text \<open>
  The \<open>while\<close> loop over the byte ranges of the file, one list element per range. The
  result is whether \<open>Cancelled\<close> was thrown, the store and the accumulator. A flush is tried
  when the accumulator has reached \<open>maxDomains\<close> domains or \<open>maxSenders\<close> senders
  (\<open>MAX_ACCUMULATED_DOMAINS\<close>, 500, and \<open>MAX_ACCUMULATED_SENDERS\<close>, 5000, in the program);
  when it fails the error is logged and the accumulator is kept.
\<close>

fun batchLoop ::
  "nat \<Rightarrow> nat \<Rightarrow> (string \<Rightarrow> int option) \<Rightarrow> batch list \<Rightarrow> store \<Rightarrow> aggregate
     \<Rightarrow> bool \<times> store \<times> aggregate" where
  "batchLoop maxDomains maxSenders parseDate [] st accumulatedDomains =
     (False, st, accumulatedDomains)"
| "batchLoop maxDomains maxSenders parseDate (Abort # bs) st accumulatedDomains =
     (True, st, accumulatedDomains)"
| "batchLoop maxDomains maxSenders parseDate (Batch input outcome # bs) st accumulatedDomains =
     (let acc = mergeResults accumulatedDomains (processBatch parseDate input);
          accumulatedDomainsCount = length acc;
          accumulatedSendersCount = sum_list (map (\<lambda>d. length (senders (snd d))) acc)
      in if accumulatedDomainsCount \<ge> maxDomains \<or> accumulatedSendersCount \<ge> maxSenders then
           (case outcome of
              FlushOk \<Rightarrow> batchLoop maxDomains maxSenders parseDate bs (flush st acc) []
            | FlushFails st' \<Rightarrow> batchLoop maxDomains maxSenders parseDate bs st' acc)
         else batchLoop maxDomains maxSenders parseDate bs st acc)"

text \<open>
  \<open>process\<close>: the result of the run (\<open>Inl\<close> for an error thrown to the caller) and the
  store it leaves. \<open>initOk\<close> is whether \<open>init\<close> and the first \<open>clear\<close> succeed, \<open>leftover\<close>
  what the store held before the run, \<open>finalFlush\<close> the outcome of the flush after the loop.
  A cancelled run returns the empty list from the \<open>catch\<close> block; any other error is thrown
  again. Failures of \<open>loadAll\<close>, of the last \<open>clear\<close> and of reading the file are not
  modelled.
\<close>

definition process ::
  "nat \<Rightarrow> nat \<Rightarrow> (string \<Rightarrow> int option) \<Rightarrow> bool \<Rightarrow> store \<Rightarrow> batch list \<Rightarrow> flushOutcome
     \<Rightarrow> (error + DomainGroup list) \<times> store" where
  "process maxDomains maxSenders parseDate initOk leftover batches finalFlush =
     (if \<not> initOk then (Inl InitFailure, leftover)
      else
        (case batchLoop maxDomains maxSenders parseDate batches (clear leftover) [] of
           (cancelled, st, accumulatedDomains) \<Rightarrow>
             if cancelled then (Inr [], st)
             else if accumulatedDomains \<noteq> [] then
               (case finalFlush of
                  FlushOk \<Rightarrow>
                    let st1 = flush st accumulatedDomains
                    in (Inr (convertToDomainGroups (loadAll st1)), clear st1)
                | FlushFails st' \<Rightarrow> (Inl WriteFailure, st'))
             else (Inr (convertToDomainGroups (loadAll st)), clear st)))"

section \<open>Domain consolidation (\<open>App.filteredGroups\<close>)\<close>

record FilterOptions =
  customExcludedDomains :: "string list"
  joinSubdomains :: bool
  dateRangeStart :: "int option"
  dateRangeEnd :: "int option"
  minMessageCount :: int

definition twoPartTLDs :: "string list" where
  "twoPartTLDs =
     [''uk'', ''au'', ''nz'', ''jp'', ''br'', ''mx'', ''ar'', ''co'', ''za'', ''in'', ''ae'', ''sa'']"

definition twoPartSLDs :: "string list" where
  "twoPartSLDs = [''co'', ''com'', ''net'', ''org'', ''gov'', ''edu'', ''ac'', ''sch'']"

text \<open>The callback of \<open>rawResults.filter\<close>.\<close>

definition keepGroup :: "FilterOptions \<Rightarrow> DomainGroup \<Rightarrow> bool" where
  "keepGroup filters group' =
     (if list_ex (\<lambda>d. includesStr (domain group') (toLowerCase d)) (customExcludedDomains filters)
      then False
      else if dateRangeStart filters \<noteq> None \<or> dateRangeEnd filters \<noteq> None then
        (case (g_earliestDate group', g_latestDate group') of
           (Some groupStart, Some groupEnd) \<Rightarrow>
             if (case dateRangeStart filters of None \<Rightarrow> False | Some a \<Rightarrow> groupEnd < a) then False
             else if (case dateRangeEnd filters of None \<Rightarrow> False | Some b \<Rightarrow> groupStart > b)
             then False
             else True
         | _ \<Rightarrow> False)
      else True)"

definition rootDomainOf :: "string \<Rightarrow> string" where
  "rootDomainOf d =
     (let parts = splitDot d
      in if length parts > 2 then
           (let tld = parts ! (length parts - 1); sld = parts ! (length parts - 2)
            in if tld \<in> set twoPartTLDs \<and> sld \<in> set twoPartSLDs \<and> length parts \<ge> 3
               then joinDot (drop (length parts - 3) parts)
               else joinDot (drop (length parts - 2) parts))
         else d)"

text \<open>The callback of \<open>groups.forEach\<close>, on the \<open>Map\<close> \<open>consolidated\<close>.\<close>

definition consolidate ::
  "DomainGroup \<Rightarrow> (string \<times> DomainGroup) list \<Rightarrow> (string \<times> DomainGroup) list" where
  "consolidate group' consolidated =
     (let rootDomain = rootDomainOf (domain group');
          rootGroup =
            (case map_of consolidated rootDomain of
               None \<Rightarrow> \<lparr>domain = rootDomain, g_totalCount = 0, g_senders = [],
                         g_isPersonal = (rootDomain \<in> set PERSONAL_DOMAINS),
                         g_earliestDate = g_earliestDate group',
                         g_latestDate = g_latestDate group'\<rparr>
             | Some r \<Rightarrow> r)
      in AList.update rootDomain
           \<lparr>domain = domain rootGroup,
            g_totalCount = g_totalCount rootGroup + g_totalCount group',
            g_senders = g_senders rootGroup @ g_senders group',
            g_isPersonal = g_isPersonal rootGroup,
            g_earliestDate = minDate (g_earliestDate rootGroup) (g_earliestDate group'),
            g_latestDate = maxDate (g_latestDate rootGroup) (g_latestDate group')\<rparr>
           consolidated)"

definition filteredGroups :: "FilterOptions \<Rightarrow> DomainGroup list \<Rightarrow> DomainGroup list" where
  "filteredGroups filters rawResults =
     (if rawResults = [] then []
      else
        let groups = filter (keepGroup filters) rawResults;
            groups1 =
              (if joinSubdomains filters then map snd (fold consolidate groups []) else groups)
        in sort_key (\<lambda>g. - int (g_totalCount g)) groups1)"

section \<open>Observations and sample inputs\<close>

text \<open>
  What the merge law is compared on: for every domain key the total count, the senders by
  address (count, earliest and latest date) and the bounds of the domain. The order of the
  entries and \<open>isPersonal\<close> are left out.
\<close>

type_synonym domainView = "nat \<times> (string \<Rightarrow> SenderData option) \<times> int option \<times> int option"

definition view :: "aggregate \<Rightarrow> string \<Rightarrow> domainView option" where
  "view a k =
     map_option (\<lambda>d. (totalCount d, map_of (senders d), earliestDate d, latestDate d))
       (map_of a k)"

text \<open>The keys of a \<open>Map\<close> are pairwise distinct, for the domains and for the senders of each.\<close>

definition wellFormed :: "aggregate \<Rightarrow> bool" where
  "wellFormed a =
     (distinct (map fst a) \<and> list_all (\<lambda>e. distinct (map fst (senders (snd e)))) a)"

text \<open>
  The merge of the overflow store as an operation on aggregates: what \<open>loadAll\<close> returns
  after the first and then the second aggregate have been flushed into the empty store.
\<close>

definition storeMerge :: "aggregate \<Rightarrow> aggregate \<Rightarrow> aggregate" where
  "storeMerge a b = loadAll (flush (flush [] a) b)"

text \<open>Count conservation, for the aggregates and for the groups of the output.\<close>

definition countsOk :: "aggregate \<Rightarrow> bool" where
  "countsOk a =
     list_all (\<lambda>e. totalCount (snd e) = sum_list (map (\<lambda>x. s_count (snd x)) (senders (snd e)))) a"

definition groupsOk :: "DomainGroup list \<Rightarrow> bool" where
  "groupsOk gs = list_all (\<lambda>g. g_totalCount g = sum_list (map count (g_senders g))) gs"

definition total :: "aggregate \<Rightarrow> nat" where
  "total a = sum_list (map (\<lambda>e. totalCount (snd e)) a)"

text \<open>
  The domain of an address in the words of the specification: what follows the last \<open>@\<close>, up
  to the next white space or \<open>>\<close>, in lower case.
\<close>

definition domainAfterLastAt :: "string \<Rightarrow> string" where
  "domainAfterLastAt addr =
     toLowerCase (takeWhile domainChar (rev (takeWhile (\<lambda>c. c \<noteq> CHR ''@'') (rev addr))))"

text \<open>A text made of complete lines, each ended by a line feed.\<close>

definition textOf :: "string list \<Rightarrow> string" where
  "textOf ls = concat (map (\<lambda>l. l @ [CHR 0x0A]) ls)"

text \<open>
  The value of \<open>new Date(s).getTime()\<close> on the two date strings of the examples: the epoch
  and one second after it.
\<close>

definition sampleParseDate :: "string \<Rightarrow> int option" where
  "sampleParseDate s =
     (if s = ''1970-01-01T00:00:00Z'' then Some 0
      else if s = ''1970-01-01T00:00:01Z'' then Some 1000 else None)"

section \<open>Spill invariance\<close>

text \<open>
  C2 (spill invariance) on a file of two batches, each holding one message of
  \<open>a@x.com\<close>, the first dated at the epoch and the second one second later. With the
  thresholds of the program (500 domains, 5000 senders) nothing is flushed before the end
  and the group of \<open>x.com\<close> comes out with no earliest date; with thresholds of 1 every
  batch is flushed and the group comes out with the earliest date one second after the
  epoch. The two runs differ, because the store tests its timestamps by truthiness and the
  timestamp 0 counts as absent.
\<close>

theorem spill_changes_result_at_epoch:
  "process 500 5000 sampleParseDate True []
     [Batch (textOf [''From x'', ''From: a@x.com'', ''Date: 1970-01-01T00:00:00Z'', [], ''hello'']) FlushOk,
      Batch (textOf [''From y'', ''From: a@x.com'', ''Date: 1970-01-01T00:00:01Z'', [], ''again'']) FlushOk]
     FlushOk
   = (Inr [\<lparr>domain = ''x.com'', g_totalCount = 2,
            g_senders = [\<lparr>email = ''a@x.com'', count = 2, lastEmailDate = Some 1000\<rparr>],
            g_isPersonal = False, g_earliestDate = None, g_latestDate = Some 1000\<rparr>], [])
   \<and>
   process 1 1 sampleParseDate True []
     [Batch (textOf [''From x'', ''From: a@x.com'', ''Date: 1970-01-01T00:00:00Z'', [], ''hello'']) FlushOk,
      Batch (textOf [''From y'', ''From: a@x.com'', ''Date: 1970-01-01T00:00:01Z'', [], ''again'']) FlushOk]
     FlushOk
   = (Inr [\<lparr>domain = ''x.com'', g_totalCount = 2,
            g_senders = [\<lparr>email = ''a@x.com'', count = 2, lastEmailDate = Some 1000\<rparr>],
            g_isPersonal = False, g_earliestDate = Some 1000, g_latestDate = Some 1000\<rparr>], [])"
  by code_simp

section \<open>The scanner\<close>

text \<open>
  C4 (only the first \<open>From:\<close> header of a message counts) on a message with two
  \<open>From:\<close> headers: the callback stores every address it is given, so the address that is
  recorded is the one of the second header.
\<close>

theorem second_from_header_recorded:
  "records (scanBatch sampleParseDate
      (textOf [''From x'', ''From: a@x.com'', ''From: b@y.com'', [], ''hello'']))
     = [(''b@y.com'', None)]
   \<and> map fst (processBatch sampleParseDate
      (textOf [''From x'', ''From: a@x.com'', ''From: b@y.com'', [], ''hello''])) = [''y.com'']"
  by code_simp

section \<open>Domain consolidation\<close>

text \<open>
  C10: the minimum message count of the filter has no effect. Two filter specifications that
  agree on the excluded domains, on the joining flag and on the date window give the same
  sequence of groups on every raw result, whatever their minimum message counts are.
\<close>

theorem minMessageCount_ignored:
  assumes "customExcludedDomains f1 = customExcludedDomains f2"
    and "joinSubdomains f1 = joinSubdomains f2"
    and "dateRangeStart f1 = dateRangeStart f2"
    and "dateRangeEnd f1 = dateRangeEnd f2"
  shows "filteredGroups f1 rawResults = filteredGroups f2 rawResults"
proof -
  have "keepGroup f1 = keepGroup f2"
    by (rule ext) (simp only: keepGroup_def assms)
  then show ?thesis
    by (simp only: filteredGroups_def assms)
qed

theorem minMessageCount_ignored_witness:
  "filteredGroups
     \<lparr>customExcludedDomains = [''gmail.com''], joinSubdomains = True, dateRangeStart = None,
      dateRangeEnd = None, minMessageCount = 0\<rparr>
     [\<lparr>domain = ''mail.example.com'', g_totalCount = 5, g_senders = [], g_isPersonal = False,
       g_earliestDate = None, g_latestDate = None\<rparr>,
      \<lparr>domain = ''example.com'', g_totalCount = 3, g_senders = [], g_isPersonal = False,
       g_earliestDate = None, g_latestDate = None\<rparr>]
   = filteredGroups
     \<lparr>customExcludedDomains = [''gmail.com''], joinSubdomains = True, dateRangeStart = None,
      dateRangeEnd = None, minMessageCount = 100\<rparr>
     [\<lparr>domain = ''mail.example.com'', g_totalCount = 5, g_senders = [], g_isPersonal = False,
       g_earliestDate = None, g_latestDate = None\<rparr>,
      \<lparr>domain = ''example.com'', g_totalCount = 3, g_senders = [], g_isPersonal = False,
       g_earliestDate = None, g_latestDate = None\<rparr>]"
  by (rule minMessageCount_ignored) simp_all

end
